theory Spec2Isabelle
  imports Complex_Main "HOL-Library.Word"
begin

section \<open>The recommender's command line\<close>

text \<open>
  The program under study is \<^verbatim>\<open>vertical-pod-autoscaler/pkg/recommender/main.go\<close>: the
  \<^verbatim>\<open>main\<close> function of the recommender. It reads its flags, wires the collaborators
  together, initialises the cluster state from one of two sources and then runs the
  reconciliation loop. Everything it calls lives in other packages; the model records each
  call as an event of a trace, in program order, with the arguments \<^verbatim>\<open>main\<close> passes.
\<close>

text \<open>\<^verbatim>\<open>time.Duration\<close> and \<^verbatim>\<open>int64\<close> are 64-bit integers; arithmetic on them wraps.\<close>

type_synonym duration = "64 word"
type_synonym int64 = "64 word"

text \<open>
  The package-level flag variables (lines 36--74), after the command line has been parsed.
  The two \<^verbatim>\<open>Float64\<close> flags are only handed on, never computed with; they are carried as
  reals.
\<close>

record flags =
  recommenderName :: string
  metricsFetcherInterval :: duration
  checkpointsGCInterval :: duration
  prometheusAddress :: string
  prometheusJobName :: string
  address :: string
  kubeconfig :: string
  kubeApiQps :: real
  kubeApiBurst :: real
  storage :: string
  historyLength :: string
  historyResolution :: string
  queryTimeout :: string
  podLabelPrefix :: string
  podLabelsMetricName :: string
  podNamespaceLabel :: string
  podNameLabel :: string
  ctrNamespaceLabel :: string
  ctrPodNameLabel :: string
  ctrNameLabel :: string
  vpaObjectNamespace :: string
  memoryAggregationInterval :: duration
  memoryAggregationIntervalCount :: int64
  memoryHistogramDecayHalfLife :: duration
  cpuHistogramDecayHalfLife :: duration
  postProcessorCPUasInteger :: bool

text \<open>
  Constants that the flag declarations import from other packages
  (\<^verbatim>\<open>input.DefaultRecommenderName\<close>, \<^verbatim>\<open>apiv1.NamespaceAll\<close>, the \<^verbatim>\<open>model.Default...\<close>
  values and \<^verbatim>\<open>common.VerticalPodAutoscalerVersion\<close>) are parameters of the model.
\<close>

record imported_constants =
  DefaultRecommenderName :: string
  NamespaceAll :: string
  DefaultMemoryAggregationInterval :: duration
  DefaultMemoryAggregationIntervalCount :: int64
  DefaultMemoryHistogramDecayHalfLife :: duration
  DefaultCPUHistogramDecayHalfLife :: duration

text \<open>\<^verbatim>\<open>time.Minute\<close>, in nanoseconds.\<close>

definition Minute :: duration where
  "Minute = 60000000000"

text \<open>The default value of every flag, as declared.\<close>

definition default_flags :: "imported_constants \<Rightarrow> flags" where
  \<open>default_flags k =
     \<lparr> recommenderName = DefaultRecommenderName k,
       metricsFetcherInterval = 1 * Minute,
       checkpointsGCInterval = 10 * Minute,
       prometheusAddress = '''',
       prometheusJobName = ''kubernetes-cadvisor'',
       address = '':8942'',
       kubeconfig = '''',
       kubeApiQps = 5,
       kubeApiBurst = 10,
       storage = '''',
       historyLength = ''8d'',
       historyResolution = ''1h'',
       queryTimeout = ''5m'',
       podLabelPrefix = ''pod_label_'',
       podLabelsMetricName = ''up{job="kubernetes-pods"}'',
       podNamespaceLabel = ''kubernetes_namespace'',
       podNameLabel = ''kubernetes_pod_name'',
       ctrNamespaceLabel = ''namespace'',
       ctrPodNameLabel = ''pod_name'',
       ctrNameLabel = ''name'',
       vpaObjectNamespace = NamespaceAll k,
       memoryAggregationInterval = DefaultMemoryAggregationInterval k,
       memoryAggregationIntervalCount = DefaultMemoryAggregationIntervalCount k,
       memoryHistogramDecayHalfLife = DefaultMemoryHistogramDecayHalfLife k,
       cpuHistogramDecayHalfLife = DefaultCPUHistogramDecayHalfLife k,
       postProcessorCPUasInteger = False \<rparr>\<close>

section \<open>Collaborators\<close>

text \<open>
  The two implementations of \<^verbatim>\<open>routines.RecommendationPostProcessor\<close> that \<^verbatim>\<open>main\<close>
  instantiates.
\<close>

datatype RecommendationPostProcessor = IntegerCPUPostProcessor | CappingPostProcessor

text \<open>\<^verbatim>\<open>history.PrometheusHistoryProviderConfig\<close>, with the fields \<^verbatim>\<open>main\<close> fills in.\<close>

record PrometheusHistoryProviderConfig =
  Address :: string
  QueryTimeout :: duration
  HistoryLength :: string
  HistoryResolution :: string
  PodLabelPrefix :: string
  PodLabelsMetricName :: string
  PodNamespaceLabel :: string
  PodNameLabel :: string
  CtrNamespaceLabel :: string
  CtrPodNameLabel :: string
  CtrNameLabel :: string
  CadvisorMetricsJobName :: string
  Namespace :: string

text \<open>Objects returned by collaborators are opaque handles.\<close>

type_synonym kubeconfig_handle = nat
type_synonym provider_handle = nat

text \<open>
  What the calls into other packages return. \<^verbatim>\<open>CreateKubeConfigOrDie\<close> either returns
  a configuration or ends the process (\<open>None\<close>); \<^verbatim>\<open>time.ParseDuration\<close> and
  \<^verbatim>\<open>history.NewPrometheusHistoryProvider\<close> return a value or an error (\<open>Inl\<close>, with the
  error's text). The numeric conversions \<^verbatim>\<open>float32(.)\<close> and \<^verbatim>\<open>int(.)\<close> applied to the
  \<^verbatim>\<open>Float64\<close> flags are parameters as well.
\<close>

record environment =
  VerticalPodAutoscalerVersion :: string
  float32 :: "real \<Rightarrow> real"
  go_int :: "real \<Rightarrow> int"
  createKubeConfigOrDie :: "string \<Rightarrow> real \<Rightarrow> int \<Rightarrow> kubeconfig_handle option"
  parseDuration :: "string \<Rightarrow> string + duration"
  newPrometheusHistoryProvider :: "PrometheusHistoryProviderConfig \<Rightarrow> string + provider_handle"

text \<open>
  The calls \<^verbatim>\<open>main\<close> makes, as events. \<open>RunOnceCall i\<close> and \<open>RunOnceReturn i\<close> are the
  entry to and the return from the \<open>i\<close>-th call of \<^verbatim>\<open>recommender.RunOnce()\<close>.
  \<open>KlogInfofV1\<close> carries the format and the version; the last argument of that call, the
  address of the flag variable, is left out. \<open>KlogFatalf\<close> carries the format and the text of
  the error; the process ends with it.
\<close>

datatype event =
    KlogInitFlags
  | KubeFlagInitFlags
  | KlogInfofV1 string string
  | CreateKubeConfigOrDie string real int
  | InitializeAggregationsConfig duration int64 duration duration
  | NewHealthCheck duration bool
  | MetricsInitialize string
  | MetricsRecommenderRegister
  | MetricsQualityRegister
  | NewRecommender kubeconfig_handle duration bool string string "RecommendationPostProcessor list"
  | ParseDuration string
  | KlogFatalf string string
  | InitFromCheckpoints
  | NewPrometheusHistoryProvider PrometheusHistoryProviderConfig
  | InitFromHistoryProvider provider_handle
  | TimeTick duration
  | RunOnceCall nat
  | RunOnceReturn nat
  | UpdateLastActivity

text \<open>How the process can end during start-up.\<close>

datatype exit = KubeConfigDied | Fatal string string

section \<open>Start-up (lines 76--129)\<close>

text \<open>Lines 92--97: the chain starts as the nil slice and is appended to.\<close>

definition buildPostProcessors :: "bool \<Rightarrow> RecommendationPostProcessor list" where
  "buildPostProcessors cpuAsInteger =
     (let postProcessors = [];
          postProcessors = (if cpuAsInteger then postProcessors @ [IntegerCPUPostProcessor]
                            else postProcessors);
          postProcessors = postProcessors @ [CappingPostProcessor]
      in postProcessors)"

text \<open>Lines 109--123.\<close>

definition historyProviderConfig :: "flags \<Rightarrow> duration \<Rightarrow> PrometheusHistoryProviderConfig" where
  "historyProviderConfig f promQueryTimeout =
     \<lparr> Address = prometheusAddress f,
       QueryTimeout = promQueryTimeout,
       HistoryLength = historyLength f,
       HistoryResolution = historyResolution f,
       PodLabelPrefix = podLabelPrefix f,
       PodLabelsMetricName = podLabelsMetricName f,
       PodNamespaceLabel = podNamespaceLabel f,
       PodNameLabel = podNameLabel f,
       CtrNamespaceLabel = ctrNamespaceLabel f,
       CtrPodNameLabel = ctrPodNameLabel f,
       CtrNameLabel = ctrNameLabel f,
       CadvisorMetricsJobName = prometheusJobName f,
       Namespace = vpaObjectNamespace f \<rparr>"

text \<open>Lines 77--88, after the kube configuration \<open>config\<close> has been obtained.\<close>

definition setup_events :: "environment \<Rightarrow> flags \<Rightarrow> event list" where
  "setup_events env f =
     [ KlogInitFlags,
       KubeFlagInitFlags,
       KlogInfofV1 ''Vertical Pod Autoscaler %s Recommender: %v'' (VerticalPodAutoscalerVersion env),
       CreateKubeConfigOrDie (kubeconfig f) (float32 env (kubeApiQps f)) (go_int env (kubeApiBurst f)) ]"

definition metrics_events :: "flags \<Rightarrow> event list" where
  "metrics_events f =
     [ InitializeAggregationsConfig (memoryAggregationInterval f) (memoryAggregationIntervalCount f)
         (memoryHistogramDecayHalfLife f) (cpuHistogramDecayHalfLife f),
       NewHealthCheck (metricsFetcherInterval f * 5) True,
       MetricsInitialize (address f),
       MetricsRecommenderRegister,
       MetricsQualityRegister ]"

text \<open>
  Start-up: the trace of calls, and \<open>Some\<close> exit when the process ended before the loop.
\<close>

definition startup :: "environment \<Rightarrow> flags \<Rightarrow> event list \<times> exit option" where
  "startup env f =
     (case createKubeConfigOrDie env (kubeconfig f) (float32 env (kubeApiQps f))
             (go_int env (kubeApiBurst f)) of
        None \<Rightarrow> (setup_events env f, Some KubeConfigDied)
      | Some config \<Rightarrow>
          (let useCheckpoints = (storage f \<noteq> ''prometheus'');
               postProcessors = buildPostProcessors (postProcessorCPUasInteger f);
               tr = setup_events env f @ metrics_events f @
                    [ NewRecommender config (checkpointsGCInterval f) useCheckpoints
                        (vpaObjectNamespace f) (recommenderName f) postProcessors,
                      ParseDuration (queryTimeout f) ]
           in case parseDuration env (queryTimeout f) of
                Inl err \<Rightarrow>
                  (tr @ [KlogFatalf ''Could not parse --prometheus-query-timeout as a time.Duration: %v'' err],
                   Some (Fatal ''Could not parse --prometheus-query-timeout as a time.Duration: %v'' err))
              | Inr promQueryTimeout \<Rightarrow>
                  if useCheckpoints then (tr @ [InitFromCheckpoints], None)
                  else
                    (let config = historyProviderConfig f promQueryTimeout;
                         tr = tr @ [NewPrometheusHistoryProvider config]
                     in case newPrometheusHistoryProvider env config of
                          Inl err \<Rightarrow>
                            (tr @ [KlogFatalf ''Could not initialize history provider: %v'' err],
                             Some (Fatal ''Could not initialize history provider: %v'' err))
                        | Inr provider \<Rightarrow> (tr @ [InitFromHistoryProvider provider], None))))"

section \<open>The reconciliation loop (lines 131--135)\<close>

text \<open>
  \<^verbatim>\<open>for range ticker { recommender.RunOnce(); healthCheck.UpdateLastActivity() }\<close> runs in
  the main goroutine. It is at one of two control points: waiting to receive from the ticker
  channel before iteration \<open>i\<close>, or inside the \<open>i\<close>-th call of \<^verbatim>\<open>RunOnce\<close>. It moves on
  two inputs from outside: the loop receives a value from the ticker channel, or the running
  \<^verbatim>\<open>RunOnce\<close> returns. The loop receives only while it waits and \<^verbatim>\<open>RunOnce\<close> returns
  only while it runs; an input listed out of place is skipped. There is no third control
  point: the loop has no exit.
\<close>

datatype loop_state = AwaitTick nat | InRunOnce nat

datatype loop_input = TickReceived | RunOnceReturned

fun loop_step :: "loop_state \<Rightarrow> loop_input \<Rightarrow> loop_state \<times> event list" where
  "loop_step (AwaitTick i) TickReceived = (InRunOnce i, [RunOnceCall i])"
| "loop_step (InRunOnce i) RunOnceReturned = (AwaitTick (Suc i), [RunOnceReturn i, UpdateLastActivity])"
| "loop_step (AwaitTick i) RunOnceReturned = (AwaitTick i, [])"
| "loop_step (InRunOnce i) TickReceived = (InRunOnce i, [])"

fun run_loop :: "loop_state \<Rightarrow> loop_input list \<Rightarrow> event list \<times> loop_state" where
  "run_loop s [] = ([], s)"
| "run_loop s (x # xs) =
     (case loop_step s x of (s', es) \<Rightarrow>
        (case run_loop s' xs of (tr, s'') \<Rightarrow> (es @ tr, s'')))"

text \<open>The whole program: where it stands, and what it has done, after the inputs \<open>ins\<close>.\<close>

datatype outcome = Exited exit | Looping loop_state

definition main :: "environment \<Rightarrow> flags \<Rightarrow> loop_input list \<Rightarrow> event list \<times> outcome" where
  "main env f ins =
     (case startup env f of
        (tr, Some x) \<Rightarrow> (tr, Exited x)
      | (tr, None) \<Rightarrow>
          (case run_loop (AwaitTick 0) ins of
             (tr', s) \<Rightarrow> (tr @ [TimeTick (metricsFetcherInterval f)] @ tr', Looping s)))"

text \<open>
  What a control point of the loop says about \<^verbatim>\<open>RunOnce\<close>: how many calls have returned,
  and whether one is in flight.
\<close>

fun returned :: "loop_state \<Rightarrow> nat" where
  "returned (AwaitTick i) = i"
| "returned (InRunOnce i) = i"

fun in_RunOnce :: "loop_state \<Rightarrow> bool" where
  "in_RunOnce (AwaitTick i) = False"
| "in_RunOnce (InRunOnce i) = True"

section \<open>An unhandled shutdown signal\<close>

text \<open>
  \<^verbatim>\<open>main\<close> registers no signal handler and hands no context, token or done-channel to the
  loop: a process-level shutdown signal is not an input of the loop above. It is taken by
  the Go runtime, whose action for a shutdown signal nobody has asked to be notified of is to
  end the process at once. \<open>Killed s\<close> is the process ended while the loop stood at \<open>s\<close>.
\<close>

datatype stimulus = LoopInput loop_input | ShutdownSignal

datatype process = Alive loop_state | Killed loop_state

fun deliver :: "process \<Rightarrow> stimulus \<Rightarrow> process \<times> event list" where
  "deliver (Alive s) (LoopInput x) = (case loop_step s x of (s', es) \<Rightarrow> (Alive s', es))"
| "deliver (Alive s) ShutdownSignal = (Killed s, [])"
| "deliver (Killed s) x = (Killed s, [])"

fun run_process :: "process \<Rightarrow> stimulus list \<Rightarrow> event list \<times> process" where
  "run_process p [] = ([], p)"
| "run_process p (x # xs) =
     (case deliver p x of (p', es) \<Rightarrow>
        (case run_process p' xs of (tr, p'') \<Rightarrow> (es @ tr, p'')))"

text \<open>
  The whole program under signals. Start-up is taken as one step; the signal is delivered to
  the process once it is in the loop.
\<close>

definition main_under_signals ::
  "environment \<Rightarrow> flags \<Rightarrow> stimulus list \<Rightarrow> event list \<times> (exit + process)" where
  "main_under_signals env f xs =
     (case startup env f of
        (tr, Some x) \<Rightarrow> (tr, Inl x)
      | (tr, None) \<Rightarrow>
          (case run_process (Alive (AwaitTick 0)) xs of
             (tr', p) \<Rightarrow> (tr @ [TimeTick (metricsFetcherInterval f)] @ tr', Inr p)))"

section \<open>Timers\<close>






section \<open>Reading traces\<close>

text \<open>The two initialisation calls of the cluster state feeder.\<close>

fun is_init :: "event \<Rightarrow> bool" where
  "is_init InitFromCheckpoints = True"
| "is_init (InitFromHistoryProvider p) = True"
| "is_init e = False"

fun is_RunOnceReturn :: "event \<Rightarrow> bool" where
  "is_RunOnceReturn (RunOnceReturn i) = True"
| "is_RunOnceReturn e = False"

fun is_loop_event :: "event \<Rightarrow> bool" where
  "is_loop_event (RunOnceCall i) = True"
| "is_loop_event (RunOnceReturn i) = True"
| "is_loop_event UpdateLastActivity = True"
| "is_loop_event e = False"

text \<open>
  \<open>serialized i busy tr\<close> reads a trace from a point where \<open>i\<close> calls of \<^verbatim>\<open>RunOnce\<close>
  have returned and \<open>busy\<close> tells whether one is in flight: a call may only start when none
  is in flight and is the \<open>i\<close>-th; a return may only close the call in flight.
\<close>

fun serialized :: "nat \<Rightarrow> bool \<Rightarrow> event list \<Rightarrow> bool" where
  "serialized i busy [] = True"
| "serialized i busy (RunOnceCall j # tr) = (\<not> busy \<and> j = i \<and> serialized i True tr)"
| "serialized i busy (RunOnceReturn j # tr) = (busy \<and> j = i \<and> serialized (Suc i) False tr)"
| "serialized i busy (e # tr) = serialized i busy tr"

text \<open>
  \<open>activity_tracks due tr\<close> reads a trace from a point where \<open>due\<close> tells whether
  \<^verbatim>\<open>RunOnce\<close> has just returned: the event after a return of \<^verbatim>\<open>RunOnce\<close> must be
  \<^verbatim>\<open>UpdateLastActivity\<close>, and \<^verbatim>\<open>UpdateLastActivity\<close> may occur nowhere else.
\<close>

fun activity_tracks :: "bool \<Rightarrow> event list \<Rightarrow> bool" where
  "activity_tracks due [] = (\<not> due)"
| "activity_tracks due (e # tr) =
     (if due then e = UpdateLastActivity \<and> activity_tracks False tr
      else if e = UpdateLastActivity then False
      else activity_tracks (is_RunOnceReturn e) tr)"

section \<open>A concrete run\<close>

text \<open>
  An environment and flag values for concrete runs: \<^verbatim>\<open>CreateKubeConfigOrDie\<close> returns,
  \<^verbatim>\<open>time.ParseDuration\<close> accepts \<^verbatim>\<open>5m\<close> and \<^verbatim>\<open>1h\<close> and rejects the other strings
  it is asked about here, and the history provider cannot be built without an address.
\<close>

definition sample_constants :: imported_constants where
  "sample_constants =
     \<lparr> DefaultRecommenderName = ''default'',
       NamespaceAll = '''',
       DefaultMemoryAggregationInterval = 24 * 60 * Minute,
       DefaultMemoryAggregationIntervalCount = 8,
       DefaultMemoryHistogramDecayHalfLife = 24 * 60 * Minute,
       DefaultCPUHistogramDecayHalfLife = 24 * 60 * Minute \<rparr>"

definition sample_environment :: environment where
  "sample_environment =
     \<lparr> VerticalPodAutoscalerVersion = ''0.13.0'',
       float32 = (\<lambda>x. x),
       go_int = (\<lambda>x. \<lfloor>x\<rfloor>),
       createKubeConfigOrDie = (\<lambda>path qps burst. Some 0),
       parseDuration = (\<lambda>s. if s = ''5m'' then Inr (5 * Minute)
                              else if s = ''1h'' then Inr (60 * Minute)
                              else Inl (''time: invalid duration '' @ [CHR 0x22] @ s @ [CHR 0x22])),
       newPrometheusHistoryProvider = (\<lambda>c. if Address c = '''' then Inl ''no address'' else Inr 0) \<rparr>"

definition sample_flags :: flags where
  "sample_flags = default_flags sample_constants"

section \<open>Facts about the model\<close>

lemmas startup_unfold = startup_def Let_def setup_events_def metrics_events_def

lemmas sample_unfold = sample_environment_def sample_flags_def default_flags_def sample_constants_def

subsection \<open>The loop\<close>

lemma run_loop_Cons:
  "fst (run_loop s (x # xs)) = snd (loop_step s x) @ fst (run_loop (fst (loop_step s x)) xs)"
  "snd (run_loop s (x # xs)) = snd (run_loop (fst (loop_step s x)) xs)"
  by (simp_all add: split_beta)

lemma loop_step_events: "e \<in> set (snd (loop_step s x)) \<Longrightarrow> is_loop_event e"
  by (cases s; cases x) auto

lemma run_loop_events: "e \<in> set (fst (run_loop s ins)) \<Longrightarrow> is_loop_event e"
proof (induction ins arbitrary: s)
  case Nil
  then show ?case by simp
next
  case (Cons x xs)
  then show ?case
    unfolding run_loop_Cons using loop_step_events by auto
qed

lemma filter_init_loop: "filter is_init (fst (run_loop s ins)) = []"
proof -
  have "\<not> is_init e" if "e \<in> set (fst (run_loop s ins))" for e
    using run_loop_events [OF that] by (cases e) simp_all
  then show ?thesis by (simp add: filter_empty_conv)
qed

lemma serialized_run_loop: "serialized (returned s) (in_RunOnce s) (fst (run_loop s ins))"
proof (induction ins arbitrary: s)
  case Nil
  then show ?case by simp
next
  case (Cons x xs)
  show ?case
  proof (cases s)
    case (AwaitTick i)
    with Cons.IH [of "InRunOnce i"] Cons.IH [of "AwaitTick i"] show ?thesis
      by (cases x) (simp_all add: split_beta)
  next
    case (InRunOnce i)
    with Cons.IH [of "AwaitTick (Suc i)"] Cons.IH [of "InRunOnce i"] show ?thesis
      by (cases x) (simp_all add: split_beta)
  qed
qed

lemma activity_run_loop: "activity_tracks False (fst (run_loop s ins))"
proof (induction ins arbitrary: s)
  case Nil
  then show ?case by simp
next
  case (Cons x xs)
  show ?case
    using Cons.IH by (cases s; cases x) (simp_all add: split_beta)
qed

lemma count_run_loop:
  "count_list (fst (run_loop s ins)) UpdateLastActivity =
   length (filter is_RunOnceReturn (fst (run_loop s ins)))"
proof (induction ins arbitrary: s)
  case Nil
  then show ?case by simp
next
  case (Cons x xs)
  show ?case
    using Cons.IH by (cases s; cases x) (simp_all add: split_beta)
qed

lemma returned_mono: "returned s \<le> returned (snd (run_loop s ins))"
proof (induction ins arbitrary: s)
  case Nil
  then show ?case by simp
next
  case (Cons x xs)
  show ?case
  proof (cases s)
    case (AwaitTick i)
    with Cons.IH [of "InRunOnce i"] Cons.IH [of "AwaitTick i"] show ?thesis
      by (cases x) (simp_all add: split_beta)
  next
    case (InRunOnce i)
    with Cons.IH [of "AwaitTick (Suc i)"] Cons.IH [of "InRunOnce i"] show ?thesis
      by (cases x) (simp_all add: split_beta)
  qed
qed

text \<open>A call that has returned is counted by the control point the loop has reached.\<close>

lemma return_before_state:
  "RunOnceReturn j \<in> set (fst (run_loop s ins)) \<Longrightarrow> j < returned (snd (run_loop s ins))"
proof (induction ins arbitrary: s)
  case Nil
  then show ?case by simp
next
  case (Cons x xs)
  show ?case
  proof (cases s)
    case (AwaitTick i)
    with Cons.prems Cons.IH [of "InRunOnce i"] Cons.IH [of "AwaitTick i"] show ?thesis
      by (cases x) (simp_all add: split_beta)
  next
    case (InRunOnce i)
    with Cons.prems Cons.IH [of "AwaitTick (Suc i)"] Cons.IH [of "InRunOnce i"]
      returned_mono [of "AwaitTick (Suc i)" xs]
    show ?thesis
      by (cases x) (auto simp: split_beta)
  qed
qed

text \<open>When the loop stands inside a call, entering that call was the last thing it did.\<close>

lemma call_in_flight:
  "snd (run_loop s ins) = InRunOnce i \<Longrightarrow>
     s = InRunOnce i \<and> fst (run_loop s ins) = [] \<or>
     fst (run_loop s ins) \<noteq> [] \<and> last (fst (run_loop s ins)) = RunOnceCall i"
proof (induction ins arbitrary: s)
  case Nil
  then show ?case by simp
next
  case (Cons x xs)
  show ?case
  proof (cases s)
    case (AwaitTick k)
    with Cons.prems Cons.IH [of "InRunOnce k"] Cons.IH [of "AwaitTick k"] show ?thesis
      by (cases x) (auto simp: split_beta)
  next
    case (InRunOnce k)
    with Cons.prems Cons.IH [of "AwaitTick (Suc k)"] Cons.IH [of "InRunOnce k"] show ?thesis
      by (cases x) (auto simp: split_beta)
  qed
qed

lemma in_flight_returns:
  "snd (run_loop (InRunOnce k) xs) = InRunOnce k \<or>
   RunOnceReturn k \<in> set (fst (run_loop (InRunOnce k) xs))"
proof (induction xs)
  case Nil
  then show ?case by simp
next
  case (Cons x xs)
  then show ?case by (cases x) (simp_all add: split_beta)
qed

text \<open>A call that was entered has returned, unless it is the one in flight.\<close>

lemma call_completed_or_in_flight:
  "RunOnceCall j \<in> set (fst (run_loop s ins)) \<Longrightarrow>
     RunOnceReturn j \<in> set (fst (run_loop s ins)) \<or> snd (run_loop s ins) = InRunOnce j"
proof (induction ins arbitrary: s)
  case Nil
  then show ?case by simp
next
  case (Cons x xs)
  show ?case
  proof (cases s)
    case (AwaitTick k)
    show ?thesis
    proof (cases x)
      case TickReceived
      from in_flight_returns [of k xs]
      have "snd (run_loop (InRunOnce k) xs) = InRunOnce k \<or>
            RunOnceReturn k \<in> set (fst (run_loop (InRunOnce k) xs))" .
      with Cons.prems Cons.IH [of "InRunOnce k"] AwaitTick TickReceived show ?thesis
        by (auto simp: split_beta)
    next
      case RunOnceReturned
      with Cons.prems Cons.IH [of "AwaitTick k"] AwaitTick show ?thesis
        by (simp add: split_beta)
    qed
  next
    case (InRunOnce k)
    with Cons.prems Cons.IH [of "AwaitTick (Suc k)"] Cons.IH [of "InRunOnce k"] show ?thesis
      by (cases x) (auto simp: split_beta)
  qed
qed

subsection \<open>Start-up, and traces that begin with it\<close>

lemma startup_events: "e \<in> set (fst (startup env f)) \<Longrightarrow> \<not> is_loop_event e"
  by (auto simp: startup_unfold split: option.splits sum.splits if_splits)

lemma main_exited:
  "snd (startup env f) = Some x \<Longrightarrow> main env f ins = (fst (startup env f), Exited x)"
  by (simp add: main_def split_beta)

lemma main_looping:
  "snd (startup env f) = None \<Longrightarrow>
   main env f ins =
     (fst (startup env f) @ TimeTick (metricsFetcherInterval f) # fst (run_loop (AwaitTick 0) ins),
      Looping (snd (run_loop (AwaitTick 0) ins)))"
  by (simp add: main_def split_beta)

lemma serialized_skip:
  "\<forall>e\<in>set xs. \<not> is_loop_event e \<Longrightarrow> serialized i b (xs @ ys) = serialized i b ys"
proof (induction xs)
  case Nil
  then show ?case by simp
next
  case (Cons a xs)
  then show ?case by (cases a) simp_all
qed

lemma activity_skip:
  "\<forall>e\<in>set xs. \<not> is_loop_event e \<Longrightarrow> activity_tracks False (xs @ ys) = activity_tracks False ys"
proof (induction xs)
  case Nil
  then show ?case by simp
next
  case (Cons a xs)
  then show ?case by (cases a) simp_all
qed

lemma count_skip:
  "\<forall>e\<in>set xs. \<not> is_loop_event e \<Longrightarrow>
     count_list xs UpdateLastActivity = 0 \<and> filter is_RunOnceReturn xs = []"
proof (induction xs)
  case Nil
  then show ?case by simp
next
  case (Cons a xs)
  then show ?case by (cases a) simp_all
qed

text \<open>
  The call of \<^verbatim>\<open>routines.NewRecommender\<close> (line 99): it is made exactly when the kube
  configuration was obtained, once, with these arguments.
\<close>

lemma recommender_call_iff:
  "NewRecommender c g u ns n pps \<in> set (fst (main env f ins)) \<longleftrightarrow>
     createKubeConfigOrDie env (kubeconfig f) (float32 env (kubeApiQps f)) (go_int env (kubeApiBurst f)) = Some c
     \<and> g = checkpointsGCInterval f
     \<and> u = (storage f \<noteq> ''prometheus'')
     \<and> ns = vpaObjectNamespace f
     \<and> n = recommenderName f
     \<and> pps = buildPostProcessors (postProcessorCPUasInteger f)"
  by (auto simp: main_def startup_unfold split_beta
      split: option.splits sum.splits dest: run_loop_events)

lemma sample_recommender_call:
  "NewRecommender 0 (10 * Minute) True '''' ''default'' [CappingPostProcessor]
     \<in> set (fst (main sample_environment sample_flags []))"
  by (simp add: main_def startup_unfold sample_unfold buildPostProcessors_def)

lemma sample_integer_call:
  "NewRecommender 0 (10 * Minute) True '''' ''default'' [IntegerCPUPostProcessor, CappingPostProcessor]
     \<in> set (fst (main sample_environment (sample_flags\<lparr>postProcessorCPUasInteger := True\<rparr>) []))"
  by (simp add: main_def startup_unfold sample_unfold buildPostProcessors_def)

lemma main_loop_events:
  "snd (startup env f) = None \<Longrightarrow> is_loop_event e \<Longrightarrow>
     e \<in> set (fst (main env f ins)) \<longleftrightarrow> e \<in> set (fst (run_loop (AwaitTick 0) ins))"
  using startup_events [of e env f] by (auto simp: main_looping)



lemma sample_startup: "snd (startup sample_environment sample_flags) = None"
  by (simp add: startup_unfold sample_unfold)

subsection \<open>The process under signals\<close>

lemma run_process_alive:
  "run_process (Alive s) (map LoopInput ins) = (fst (run_loop s ins), Alive (snd (run_loop s ins)))"
  by (induction ins arbitrary: s) (simp_all add: split_beta)

lemma run_process_killed: "run_process (Killed s) xs = ([], Killed s)"
  by (induction xs) simp_all

lemma run_process_append:
  "run_process p (xs @ ys) =
     (fst (run_process p xs) @ fst (run_process (snd (run_process p xs)) ys),
      snd (run_process (snd (run_process p xs)) ys))"
  by (induction xs arbitrary: p) (simp_all add: split_beta)

lemma main_under_signals_killed:
  "snd (startup env f) = None \<Longrightarrow>
   main_under_signals env f (map LoopInput ins @ ShutdownSignal # rest) =
     (fst (main env f ins), Inr (Killed (snd (run_loop (AwaitTick 0) ins))))"
  by (simp add: main_under_signals_def main_def split_beta
      run_process_alive run_process_append run_process_killed)

section \<open>The post-processor chain\<close>

text \<open>
  C1. Whatever the flags, the environment and the inputs, every list of post-processors that
  \<^verbatim>\<open>main\<close> passes to \<^verbatim>\<open>routines.NewRecommender\<close> is non-empty and ends with the
  \<^verbatim>\<open>CappingPostProcessor\<close>: capping is the last transform of the chain.
\<close>

theorem capping_is_last:
  "NewRecommender c g u ns n pps \<in> set (fst (main env f ins)) \<Longrightarrow>
     pps \<noteq> [] \<and> last pps = CappingPostProcessor"
  by (simp add: recommender_call_iff buildPostProcessors_def)

text \<open>With the default flags the chain handed over is the capping post-processor alone.\<close>

theorem capping_is_last_witness:
  "NewRecommender 0 (10 * Minute) True '''' ''default'' [CappingPostProcessor]
     \<in> set (fst (main sample_environment sample_flags []))
   \<and> [CappingPostProcessor] \<noteq> [] \<and> last [CappingPostProcessor] = CappingPostProcessor"
  by (rule conjI [OF sample_recommender_call capping_is_last [OF sample_recommender_call]])

text \<open>
  C5. The \<^verbatim>\<open>IntegerCPUPostProcessor\<close> is in the chain passed to the recommender if and
  only if \<^verbatim>\<open>--cpu-integer-post-processor-enabled\<close> is set; every position it occupies lies
  strictly before every position of the \<^verbatim>\<open>CappingPostProcessor\<close>; and when the flag is set
  the chain is exactly integer rounding followed by capping.
\<close>

theorem integer_cpu_opt_in_before_capping:
  "NewRecommender c g u ns n pps \<in> set (fst (main env f ins)) \<Longrightarrow>
     (IntegerCPUPostProcessor \<in> set pps \<longleftrightarrow> postProcessorCPUasInteger f) \<and>
     (\<forall>i j. i < length pps \<and> j < length pps \<and> pps ! i = IntegerCPUPostProcessor
              \<and> pps ! j = CappingPostProcessor \<longrightarrow> i < j) \<and>
     (postProcessorCPUasInteger f \<longrightarrow> pps = [IntegerCPUPostProcessor, CappingPostProcessor])"
  by (auto simp: recommender_call_iff buildPostProcessors_def nth_Cons split: nat.splits)

theorem integer_cpu_opt_in_before_capping_witness:
  "NewRecommender 0 (10 * Minute) True '''' ''default'' [IntegerCPUPostProcessor, CappingPostProcessor]
     \<in> set (fst (main sample_environment (sample_flags\<lparr>postProcessorCPUasInteger := True\<rparr>) []))
   \<and> postProcessorCPUasInteger (sample_flags\<lparr>postProcessorCPUasInteger := True\<rparr>)
   \<and> IntegerCPUPostProcessor \<in> set [IntegerCPUPostProcessor, CappingPostProcessor]
   \<and> [IntegerCPUPostProcessor, CappingPostProcessor] ! 0 = IntegerCPUPostProcessor
   \<and> [IntegerCPUPostProcessor, CappingPostProcessor] ! 1 = CappingPostProcessor
   \<and> (0::nat) < 1"
  using integer_cpu_opt_in_before_capping [OF sample_integer_call] sample_integer_call
  by simp

section \<open>Choosing how the cluster state is initialised\<close>

text \<open>
  The statement "exactly one of \<^verbatim>\<open>InitFromCheckpoints\<close> and
  \<^verbatim>\<open>InitFromHistoryProvider\<close> is invoked at start-up, never neither" does not hold of every
  run: with the default storage mode and \<^verbatim>\<open>--prometheus-query-timeout=abc\<close> the process
  ends at line 103, before either call.
\<close>

theorem init_exactly_one_counterexample:
  "length (filter is_init
     (fst (main sample_environment (sample_flags\<lparr>queryTimeout := ''abc''\<rparr>) []))) \<noteq> 1"
  by (simp add: main_def startup_unfold sample_unfold)

text \<open>
  C2, as the code has it. The two initialisation modes are mutually exclusive and selected by
  the storage flag: no run invokes more than one of \<^verbatim>\<open>InitFromCheckpoints\<close> and
  \<^verbatim>\<open>InitFromHistoryProvider\<close>; a run that reaches the reconciliation loop has invoked
  exactly one of them, \<^verbatim>\<open>InitFromHistoryProvider\<close> when the storage flag is
  \<^verbatim>\<open>prometheus\<close> and \<^verbatim>\<open>InitFromCheckpoints\<close> otherwise; a run that ends during
  start-up has invoked neither.
\<close>

theorem init_modes_exclusive:
  "length (filter is_init (fst (main env f ins))) \<le> 1 \<and>
   (\<forall>x. snd (main env f ins) = Exited x \<longrightarrow> filter is_init (fst (main env f ins)) = []) \<and>
   (\<forall>s. snd (main env f ins) = Looping s \<longrightarrow>
      (if storage f = ''prometheus''
       then \<exists>provider. filter is_init (fst (main env f ins)) = [InitFromHistoryProvider provider]
       else filter is_init (fst (main env f ins)) = [InitFromCheckpoints]))"
  by (simp add: main_def startup_unfold split_beta filter_init_loop
      split: option.splits sum.splits)

text \<open>
  Three runs: checkpoint mode reaching the loop, \<^verbatim>\<open>prometheus\<close> mode reaching the loop, and
  a start-up that ends at line 103.
\<close>

theorem init_modes_exclusive_witness:
  "snd (main sample_environment sample_flags [TickReceived]) = Looping (InRunOnce 0) \<and>
   storage sample_flags \<noteq> ''prometheus'' \<and>
   filter is_init (fst (main sample_environment sample_flags [TickReceived])) = [InitFromCheckpoints] \<and>
   snd (main sample_environment
          (sample_flags\<lparr>storage := ''prometheus'', prometheusAddress := ''http://prometheus:9090''\<rparr>)
          [TickReceived]) = Looping (InRunOnce 0) \<and>
   (\<exists>provider. filter is_init (fst (main sample_environment
          (sample_flags\<lparr>storage := ''prometheus'', prometheusAddress := ''http://prometheus:9090''\<rparr>)
          [TickReceived])) = [InitFromHistoryProvider provider]) \<and>
   snd (main sample_environment (sample_flags\<lparr>queryTimeout := ''soon''\<rparr>) [TickReceived]) =
     Exited (Fatal ''Could not parse --prometheus-query-timeout as a time.Duration: %v''
       (''time: invalid duration '' @ [CHR 0x22] @ ''soon'' @ [CHR 0x22])) \<and>
   filter is_init (fst (main sample_environment (sample_flags\<lparr>queryTimeout := ''soon''\<rparr>)
          [TickReceived])) = []"
proof -
  have l: "snd (main sample_environment sample_flags [TickReceived]) = Looping (InRunOnce 0)"
    by (simp add: main_def startup_unfold sample_unfold)
  have s: "storage sample_flags \<noteq> ''prometheus''"
    by (simp add: sample_unfold)
  from init_modes_exclusive [of sample_environment sample_flags "[TickReceived]"] l s
  have c: "filter is_init (fst (main sample_environment sample_flags [TickReceived])) = [InitFromCheckpoints]"
    by simp
  have l': "snd (main sample_environment
          (sample_flags\<lparr>storage := ''prometheus'', prometheusAddress := ''http://prometheus:9090''\<rparr>)
          [TickReceived]) = Looping (InRunOnce 0)"
    by (simp add: main_def startup_unfold sample_unfold historyProviderConfig_def)
  from init_modes_exclusive [of sample_environment
      "sample_flags\<lparr>storage := ''prometheus'', prometheusAddress := ''http://prometheus:9090''\<rparr>"
      "[TickReceived]"] l'
  have h: "\<exists>provider. filter is_init (fst (main sample_environment
          (sample_flags\<lparr>storage := ''prometheus'', prometheusAddress := ''http://prometheus:9090''\<rparr>)
          [TickReceived])) = [InitFromHistoryProvider provider]"
    by simp
  have x: "snd (main sample_environment (sample_flags\<lparr>queryTimeout := ''soon''\<rparr>) [TickReceived]) =
     Exited (Fatal ''Could not parse --prometheus-query-timeout as a time.Duration: %v''
       (''time: invalid duration '' @ [CHR 0x22] @ ''soon'' @ [CHR 0x22]))"
    by (simp add: main_def startup_unfold sample_unfold)
  from init_modes_exclusive [of sample_environment "sample_flags\<lparr>queryTimeout := ''soon''\<rparr>"
      "[TickReceived]"] x
  have n: "filter is_init (fst (main sample_environment (sample_flags\<lparr>queryTimeout := ''soon''\<rparr>)
          [TickReceived])) = []"
    by simp
  from l s c l' h x n show ?thesis by blast
qed

text \<open>
  C9. Line 90 only compares the storage flag with \<^verbatim>\<open>prometheus\<close>. For every other value
  the run is the run of the empty default, event for event and with the same outcome, so no
  value is rejected; the recommender is built for checkpoints, no history provider is
  constructed, and a run that reaches the loop has initialised from checkpoints.
\<close>

theorem unsupported_storage_selects_checkpoints:
  "storage f \<noteq> ''prometheus'' \<Longrightarrow>
     main env f ins = main env (f\<lparr>storage := ''''\<rparr>) ins \<and>
     (\<forall>c g u ns n pps. NewRecommender c g u ns n pps \<in> set (fst (main env f ins)) \<longrightarrow> u) \<and>
     (\<forall>cfg. NewPrometheusHistoryProvider cfg \<notin> set (fst (main env f ins))) \<and>
     (\<forall>s. snd (main env f ins) = Looping s \<longrightarrow>
        filter is_init (fst (main env f ins)) = [InitFromCheckpoints])"
  by (auto simp: main_def startup_unfold split_beta filter_init_loop
      split: option.splits sum.splits dest: run_loop_events)

text \<open>The run with \<^verbatim>\<open>--storage=historical\<close>.\<close>

theorem unsupported_storage_selects_checkpoints_witness:
  "storage (sample_flags\<lparr>storage := ''historical''\<rparr>) \<noteq> ''prometheus'' \<and>
   main sample_environment (sample_flags\<lparr>storage := ''historical''\<rparr>) [] =
     main sample_environment (sample_flags\<lparr>storage := ''historical'', storage := ''''\<rparr>) [] \<and>
   NewRecommender 0 (10 * Minute) True '''' ''default'' [CappingPostProcessor]
     \<in> set (fst (main sample_environment (sample_flags\<lparr>storage := ''historical''\<rparr>) [])) \<and>
   snd (main sample_environment (sample_flags\<lparr>storage := ''historical''\<rparr>) []) = Looping (AwaitTick 0) \<and>
   filter is_init (fst (main sample_environment (sample_flags\<lparr>storage := ''historical''\<rparr>) [])) =
     [InitFromCheckpoints]"
proof -
  have s: "storage (sample_flags\<lparr>storage := ''historical''\<rparr>) \<noteq> ''prometheus''"
    by simp
  have r: "NewRecommender 0 (10 * Minute) True '''' ''default'' [CappingPostProcessor]
     \<in> set (fst (main sample_environment (sample_flags\<lparr>storage := ''historical''\<rparr>) []))"
    by (simp add: main_def startup_unfold sample_unfold buildPostProcessors_def)
  have l: "snd (main sample_environment (sample_flags\<lparr>storage := ''historical''\<rparr>) []) = Looping (AwaitTick 0)"
    by (simp add: main_def startup_unfold sample_unfold)
  note t = unsupported_storage_selects_checkpoints [OF s, of sample_environment "[]"]
  from t have e: "main sample_environment (sample_flags\<lparr>storage := ''historical''\<rparr>) [] =
     main sample_environment (sample_flags\<lparr>storage := ''historical'', storage := ''''\<rparr>) []"
    by (rule conjunct1)
  from t l
  have c: "filter is_init (fst (main sample_environment (sample_flags\<lparr>storage := ''historical''\<rparr>) [])) =
     [InitFromCheckpoints]"
    by blast
  from s e r l c show ?thesis by blast
qed

section \<open>Fatal errors of start-up\<close>

text \<open>
  C3. When \<^verbatim>\<open>history.NewPrometheusHistoryProvider\<close> is called and returns an error, the
  storage mode is \<^verbatim>\<open>prometheus\<close>, the process ends with
  \<^verbatim>\<open>klog.Fatalf("Could not initialize history provider: ...")\<close> as its last call, the
  cluster state has not been initialised and \<^verbatim>\<open>RunOnce\<close> is never called, whatever input
  follows.
\<close>

theorem history_provider_failure_is_fatal:
  "NewPrometheusHistoryProvider cfg \<in> set (fst (main env f ins)) \<Longrightarrow>
   newPrometheusHistoryProvider env cfg = Inl err \<Longrightarrow>
     storage f = ''prometheus'' \<and>
     snd (main env f ins) = Exited (Fatal ''Could not initialize history provider: %v'' err) \<and>
     last (fst (main env f ins)) = KlogFatalf ''Could not initialize history provider: %v'' err \<and>
     filter is_init (fst (main env f ins)) = [] \<and>
     (\<forall>i. RunOnceCall i \<notin> set (fst (main env f ins)))"
  by (auto simp: main_def startup_unfold split_beta
      split: option.splits sum.splits if_splits dest: run_loop_events)

theorem history_provider_failure_is_fatal_witness:
  "NewPrometheusHistoryProvider (historyProviderConfig (sample_flags\<lparr>storage := ''prometheus''\<rparr>) (5 * Minute))
     \<in> set (fst (main sample_environment (sample_flags\<lparr>storage := ''prometheus''\<rparr>) [TickReceived])) \<and>
   newPrometheusHistoryProvider sample_environment
     (historyProviderConfig (sample_flags\<lparr>storage := ''prometheus''\<rparr>) (5 * Minute)) = Inl ''no address'' \<and>
   snd (main sample_environment (sample_flags\<lparr>storage := ''prometheus''\<rparr>) [TickReceived]) =
     Exited (Fatal ''Could not initialize history provider: %v'' ''no address'')"
proof -
  have a: "NewPrometheusHistoryProvider (historyProviderConfig (sample_flags\<lparr>storage := ''prometheus''\<rparr>) (5 * Minute))
     \<in> set (fst (main sample_environment (sample_flags\<lparr>storage := ''prometheus''\<rparr>) [TickReceived]))"
    by (simp add: main_def startup_unfold sample_unfold historyProviderConfig_def)
  have b: "newPrometheusHistoryProvider sample_environment
     (historyProviderConfig (sample_flags\<lparr>storage := ''prometheus''\<rparr>) (5 * Minute)) = Inl ''no address''"
    by (simp add: sample_unfold historyProviderConfig_def)
  from history_provider_failure_is_fatal [OF a b] a b show ?thesis by simp
qed

text \<open>
  C10. Lines 101--104 come before the branch on the storage mode. When the value of
  \<^verbatim>\<open>--prometheus-query-timeout\<close> does not parse, the process ends during start-up whatever
  the storage mode: nothing is initialised and \<^verbatim>\<open>RunOnce\<close> is never called; and once the
  kube configuration has been obtained the value is parsed and the exit is the
  \<^verbatim>\<open>klog.Fatalf\<close> of line 103.
\<close>

theorem query_timeout_validated_unconditionally:
  "parseDuration env (queryTimeout f) = Inl err \<Longrightarrow>
     (\<exists>x. snd (main env f ins) = Exited x) \<and>
     filter is_init (fst (main env f ins)) = [] \<and>
     (\<forall>i. RunOnceCall i \<notin> set (fst (main env f ins))) \<and>
     (\<forall>c. createKubeConfigOrDie env (kubeconfig f) (float32 env (kubeApiQps f))
              (go_int env (kubeApiBurst f)) = Some c \<longrightarrow>
          ParseDuration (queryTimeout f) \<in> set (fst (main env f ins)) \<and>
          snd (main env f ins) =
            Exited (Fatal ''Could not parse --prometheus-query-timeout as a time.Duration: %v'' err))"
  by (auto simp: main_def startup_unfold split_beta split: option.splits)

text \<open>A run in checkpoint mode, where the timeout would not be used.\<close>

theorem query_timeout_validated_unconditionally_witness:
  "storage (sample_flags\<lparr>queryTimeout := ''abc''\<rparr>) \<noteq> ''prometheus'' \<and>
   parseDuration sample_environment (queryTimeout (sample_flags\<lparr>queryTimeout := ''abc''\<rparr>)) =
     Inl (''time: invalid duration '' @ [CHR 0x22] @ ''abc'' @ [CHR 0x22]) \<and>
   snd (main sample_environment (sample_flags\<lparr>queryTimeout := ''abc''\<rparr>) [TickReceived]) =
     Exited (Fatal ''Could not parse --prometheus-query-timeout as a time.Duration: %v''
       (''time: invalid duration '' @ [CHR 0x22] @ ''abc'' @ [CHR 0x22]))"
proof -
  have a: "parseDuration sample_environment (queryTimeout (sample_flags\<lparr>queryTimeout := ''abc''\<rparr>)) =
     Inl (''time: invalid duration '' @ [CHR 0x22] @ ''abc'' @ [CHR 0x22])"
    by (simp add: sample_unfold)
  have k: "createKubeConfigOrDie sample_environment (kubeconfig (sample_flags\<lparr>queryTimeout := ''abc''\<rparr>))
      (float32 sample_environment (kubeApiQps (sample_flags\<lparr>queryTimeout := ''abc''\<rparr>)))
      (go_int sample_environment (kubeApiBurst (sample_flags\<lparr>queryTimeout := ''abc''\<rparr>))) = Some 0"
    by (simp add: sample_unfold)
  have s: "storage (sample_flags\<lparr>queryTimeout := ''abc''\<rparr>) \<noteq> ''prometheus''"
    by (simp add: sample_unfold)
  from query_timeout_validated_unconditionally [OF a, of "[TickReceived]"] k
  have "snd (main sample_environment (sample_flags\<lparr>queryTimeout := ''abc''\<rparr>) [TickReceived]) =
     Exited (Fatal ''Could not parse --prometheus-query-timeout as a time.Duration: %v''
       (''time: invalid duration '' @ [CHR 0x22] @ ''abc'' @ [CHR 0x22]))"
    by blast
  with a s show ?thesis by blast
qed

section \<open>Timer periods\<close>



section \<open>The reconciliation loop\<close>

text \<open>
  C4. \<^verbatim>\<open>RunOnce\<close> is called from the loop body in the main goroutine, so its executions are
  strictly serialized: on every run, read from its start, a call of \<^verbatim>\<open>RunOnce\<close> begins
  only when none is in flight and all earlier ones have returned, and a return closes the one
  call in flight. This holds for every sequence of inputs.
\<close>

theorem RunOnce_serialized: "serialized 0 False (fst (main env f ins))"
proof -
  have *: "\<forall>e\<in>set (fst (startup env f)). \<not> is_loop_event e"
    using startup_events by blast
  show ?thesis
  proof (cases "snd (startup env f)")
    case None
    have "serialized 0 False (fst (run_loop (AwaitTick 0) ins))"
      using serialized_run_loop [of "AwaitTick 0" ins] by simp
    then show ?thesis
      by (simp add: main_looping [OF None] serialized_skip [OF *])
  next
    case (Some x)
    show ?thesis
      using serialized_skip [OF *, of 0 False "[]"] by (simp add: main_exited [OF Some])
  qed
qed

text \<open>
  A receive listed while the first \<^verbatim>\<open>RunOnce\<close> is in flight starts nothing: the loop is
  inside the call.
\<close>

theorem RunOnce_serialized_witness:
  "filter is_loop_event (fst (main sample_environment sample_flags
       [TickReceived, TickReceived, RunOnceReturned, TickReceived])) =
     [RunOnceCall 0, RunOnceReturn 0, UpdateLastActivity, RunOnceCall 1] \<and>
   serialized 0 False (fst (main sample_environment sample_flags
       [TickReceived, TickReceived, RunOnceReturned, TickReceived]))"
proof -
  have a: "filter is_loop_event (fst (main sample_environment sample_flags
       [TickReceived, TickReceived, RunOnceReturned, TickReceived])) =
     [RunOnceCall 0, RunOnceReturn 0, UpdateLastActivity, RunOnceCall 1]"
    by (simp add: main_def startup_unfold sample_unfold)
  show ?thesis by (rule conjI [OF a RunOnce_serialized])
qed

text \<open>
  C6. On every run, each return of \<^verbatim>\<open>RunOnce\<close> is followed at once by
  \<^verbatim>\<open>healthCheck.UpdateLastActivity()\<close>, and \<^verbatim>\<open>main\<close> calls
  \<^verbatim>\<open>UpdateLastActivity\<close> nowhere else: not during start-up and not while a \<^verbatim>\<open>RunOnce\<close>
  is in flight. The number of updates is the number of completed calls of \<^verbatim>\<open>RunOnce\<close>.
\<close>

theorem liveness_tracks_RunOnce:
  "activity_tracks False (fst (main env f ins)) \<and>
   count_list (fst (main env f ins)) UpdateLastActivity =
     length (filter is_RunOnceReturn (fst (main env f ins)))"
proof -
  have *: "\<forall>e\<in>set (fst (startup env f)). \<not> is_loop_event e"
    using startup_events by blast
  show ?thesis
  proof (cases "snd (startup env f)")
    case None
    have "activity_tracks False (TimeTick (metricsFetcherInterval f) # fst (run_loop (AwaitTick 0) ins))"
      using activity_run_loop by simp
    then show ?thesis
      using count_skip [OF *] count_run_loop [of "AwaitTick 0" ins]
      by (simp add: main_looping [OF None] activity_skip [OF *])
  next
    case (Some x)
    show ?thesis
      using activity_skip [OF *, of "[]"] count_skip [OF *]
      by (simp add: main_exited [OF Some])
  qed
qed

text \<open>Two calls of \<^verbatim>\<open>RunOnce\<close>, one of them completed: one update.\<close>

theorem liveness_tracks_RunOnce_witness:
  "filter is_loop_event (fst (main sample_environment sample_flags
       [TickReceived, RunOnceReturned, TickReceived])) =
     [RunOnceCall 0, RunOnceReturn 0, UpdateLastActivity, RunOnceCall 1] \<and>
   count_list (fst (main sample_environment sample_flags
       [TickReceived, RunOnceReturned, TickReceived])) UpdateLastActivity = 1"
proof -
  have a: "filter is_loop_event (fst (main sample_environment sample_flags
       [TickReceived, RunOnceReturned, TickReceived])) =
     [RunOnceCall 0, RunOnceReturn 0, UpdateLastActivity, RunOnceCall 1]"
    by (simp add: main_def startup_unfold sample_unfold)
  have b: "length (filter is_RunOnceReturn (fst (main sample_environment sample_flags
       [TickReceived, RunOnceReturned, TickReceived]))) = 1"
    by (simp add: main_def startup_unfold sample_unfold)
  from liveness_tracks_RunOnce [of sample_environment sample_flags
      "[TickReceived, RunOnceReturned, TickReceived]"] b
  have "count_list (fst (main sample_environment sample_flags
       [TickReceived, RunOnceReturned, TickReceived])) UpdateLastActivity = 1"
    by simp
  with a show ?thesis by (rule conjI)
qed

text \<open>
  The statement "a shutdown signal lets the \<^verbatim>\<open>RunOnce\<close> in flight finish its cycle before
  the loop stops" does not hold: a signal that arrives during the first \<^verbatim>\<open>RunOnce\<close> ends
  the process inside it. The call has been made, its return and the update of the last
  activity never happen.
\<close>

theorem shutdown_interrupts_RunOnce_counterexample:
  "run_process (Alive (AwaitTick 0)) [LoopInput TickReceived, ShutdownSignal, LoopInput RunOnceReturned]
     = ([RunOnceCall 0], Killed (InRunOnce 0))"
  by simp

text \<open>
  C7, as the code has it. \<^verbatim>\<open>main\<close> registers no handler and the loop has no cancellation
  path, so a process-level shutdown signal does not let a \<^verbatim>\<open>RunOnce\<close> in flight finish.
  On every run that has reached the loop, the signal ends the process with exactly what it had
  done before. If \<^verbatim>\<open>RunOnce\<close> is in flight at that moment, entering it was the last thing
  the process did: that call never returns and no \<^verbatim>\<open>UpdateLastActivity\<close> follows it. Only
  when the loop is waiting for its next tick does the signal find every \<^verbatim>\<open>RunOnce\<close> that
  was started also completed.
\<close>

theorem shutdown_signal_interrupts_RunOnce_in_flight:
  "snd (startup env f) = None \<Longrightarrow>
   main_under_signals env f (map LoopInput ins @ ShutdownSignal # rest) =
     (fst (main env f ins), Inr (Killed (snd (run_loop (AwaitTick 0) ins)))) \<and>
   (\<forall>i. snd (run_loop (AwaitTick 0) ins) = InRunOnce i \<longrightarrow>
      last (fst (main_under_signals env f (map LoopInput ins @ ShutdownSignal # rest))) = RunOnceCall i \<and>
      RunOnceReturn i \<notin> set (fst (main_under_signals env f (map LoopInput ins @ ShutdownSignal # rest)))) \<and>
   (\<forall>i. snd (run_loop (AwaitTick 0) ins) = AwaitTick i \<longrightarrow>
      (\<forall>j. RunOnceCall j \<in> set (fst (main_under_signals env f (map LoopInput ins @ ShutdownSignal # rest)))
           \<longrightarrow> RunOnceReturn j \<in> set (fst (main_under_signals env f (map LoopInput ins @ ShutdownSignal # rest)))))"
proof -
  assume st: "snd (startup env f) = None"
  note k = main_under_signals_killed [OF st, of ins rest]
  have a: "last (fst (main env f ins)) = RunOnceCall i \<and> RunOnceReturn i \<notin> set (fst (main env f ins))"
    if fl: "snd (run_loop (AwaitTick 0) ins) = InRunOnce i" for i
  proof
    from call_in_flight [OF fl]
    have "fst (run_loop (AwaitTick 0) ins) \<noteq> [] \<and> last (fst (run_loop (AwaitTick 0) ins)) = RunOnceCall i"
      by simp
    then show "last (fst (main env f ins)) = RunOnceCall i"
      by (simp add: main_looping [OF st])
    from return_before_state [of i "AwaitTick 0" ins] fl
    have "RunOnceReturn i \<notin> set (fst (run_loop (AwaitTick 0) ins))"
      by auto
    then show "RunOnceReturn i \<notin> set (fst (main env f ins))"
      by (simp add: main_loop_events [OF st])
  qed
  have b: "RunOnceReturn j \<in> set (fst (main env f ins))"
    if aw: "snd (run_loop (AwaitTick 0) ins) = AwaitTick i"
      and c: "RunOnceCall j \<in> set (fst (main env f ins))" for i j
  proof -
    from c have "RunOnceCall j \<in> set (fst (run_loop (AwaitTick 0) ins))"
      by (simp add: main_loop_events [OF st])
    from call_completed_or_in_flight [OF this] aw
    have "RunOnceReturn j \<in> set (fst (run_loop (AwaitTick 0) ins))"
      by simp
    then show ?thesis
      by (simp add: main_loop_events [OF st])
  qed
  from k a b show ?thesis by simp
qed

text \<open>
  The signal during the first \<^verbatim>\<open>RunOnce\<close>, and the signal after the first \<^verbatim>\<open>RunOnce\<close>
  has returned.
\<close>

theorem shutdown_signal_interrupts_RunOnce_in_flight_witness:
  "snd (startup sample_environment sample_flags) = None \<and>
   snd (run_loop (AwaitTick 0) [TickReceived]) = InRunOnce 0 \<and>
   snd (main_under_signals sample_environment sample_flags
          (map LoopInput [TickReceived] @ ShutdownSignal # [LoopInput RunOnceReturned])) =
     Inr (Killed (InRunOnce 0)) \<and>
   last (fst (main_under_signals sample_environment sample_flags
          (map LoopInput [TickReceived] @ ShutdownSignal # [LoopInput RunOnceReturned]))) = RunOnceCall 0 \<and>
   RunOnceReturn 0 \<notin> set (fst (main_under_signals sample_environment sample_flags
          (map LoopInput [TickReceived] @ ShutdownSignal # [LoopInput RunOnceReturned]))) \<and>
   snd (run_loop (AwaitTick 0) [TickReceived, RunOnceReturned]) = AwaitTick 1 \<and>
   RunOnceCall 0 \<in> set (fst (main_under_signals sample_environment sample_flags
          (map LoopInput [TickReceived, RunOnceReturned] @ ShutdownSignal # []))) \<and>
   RunOnceReturn 0 \<in> set (fst (main_under_signals sample_environment sample_flags
          (map LoopInput [TickReceived, RunOnceReturned] @ ShutdownSignal # [])))"
proof -
  have fl: "snd (run_loop (AwaitTick 0) [TickReceived]) = InRunOnce 0"
    by simp
  have aw: "snd (run_loop (AwaitTick 0) [TickReceived, RunOnceReturned]) = AwaitTick 1"
    by simp
  note t1 = shutdown_signal_interrupts_RunOnce_in_flight
    [OF sample_startup, of "[TickReceived]" "[LoopInput RunOnceReturned]"]
  note t2 = shutdown_signal_interrupts_RunOnce_in_flight
    [OF sample_startup, of "[TickReceived, RunOnceReturned]" "[]"]
  from t1 fl
  have k: "snd (main_under_signals sample_environment sample_flags
          (map LoopInput [TickReceived] @ ShutdownSignal # [LoopInput RunOnceReturned])) =
     Inr (Killed (InRunOnce 0))"
    by simp
  from t1 fl
  have l: "last (fst (main_under_signals sample_environment sample_flags
          (map LoopInput [TickReceived] @ ShutdownSignal # [LoopInput RunOnceReturned]))) = RunOnceCall 0"
    by blast
  from t1 fl
  have n: "RunOnceReturn 0 \<notin> set (fst (main_under_signals sample_environment sample_flags
          (map LoopInput [TickReceived] @ ShutdownSignal # [LoopInput RunOnceReturned])))"
    by blast
  have c: "RunOnceCall 0 \<in> set (fst (main_under_signals sample_environment sample_flags
          (map LoopInput [TickReceived, RunOnceReturned] @ ShutdownSignal # [])))"
    by (simp add: main_under_signals_def startup_unfold sample_unfold)
  from t2 aw c
  have r: "RunOnceReturn 0 \<in> set (fst (main_under_signals sample_environment sample_flags
          (map LoopInput [TickReceived, RunOnceReturned] @ ShutdownSignal # [])))"
    by blast
  from sample_startup fl k l n aw c r show ?thesis by blast
qed

end
